theory Spec2Isabelle
  imports Main
begin

section \<open>Data model of the VideoRecorder component\<close>

text \<open>
  The component \<^verbatim>\<open>src/components/recording/VideoRecorder.tsx\<close> keeps its state in React
  state cells and in three hooks. The model is one record of all these cells, passed
  explicitly through every handler. Results of the collaborators the component awaits
  (camera driver, USB bus, position provider, upload pipeline) are inputs of the handlers.
\<close>

text \<open>An identifier as the drivers report it: a JavaScript string or number.\<close>

datatype js_id = IdStr string | IdNum int

text \<open>An entry of \<^verbatim>\<open>Camera.getAvailableCameras()\<close>: the fields \<^verbatim>\<open>id\<close> and \<^verbatim>\<open>name\<close>.\<close>

record builtin_device =
  dev_id :: js_id
  dev_name :: string

text \<open>
  An entry of \<^verbatim>\<open>UsbManager.getDeviceList()\<close>: the field \<^verbatim>\<open>deviceId\<close> and the results of
  \<^verbatim>\<open>getDeviceClass()\<close> and \<^verbatim>\<open>getProductName()\<close>.
\<close>

record usb_device =
  deviceId :: js_id
  deviceClass :: int
  productName :: string

datatype camera_type = BuiltIn | Usb

text \<open>The normalised shape \<^verbatim>\<open>{id, name, type}\<close> built in \<^verbatim>\<open>scanForCameras\<close>.\<close>

record camera =
  cam_id :: js_id
  cam_name :: string
  cam_type :: camera_type

record gps_entry =
  timestamp :: nat
  latitude :: int
  longitude :: int
  accuracyMeters :: "int option"

record artifact =
  handle :: string
  durationSeconds :: nat
  sizeBytes :: nat

text \<open>The options object handed to \<^verbatim>\<open>cameraRef.current.startRecording\<close>.\<close>

record record_options =
  quality :: string
  maxDuration :: nat
  maxFileSize :: nat

text \<open>How an awaited promise settles; a rejection carries the error that is logged.\<close>

datatype 'a settled = Fulfilled 'a | RejectedWith string

datatype upload_outcome = UploadSuccess | UploadFailure string

text \<open>
  Every effectful call the component makes, in program order: the React state setters,
  the hook operations, the calls on the camera reference, \<^verbatim>\<open>alert\<close> and the console.
\<close>

datatype effect =
    Alert string
  | ConsoleWarn string
  | ConsoleError string string
  | SetHasPermission bool
  | SetCameras "camera list"
  | SetSelectedCamera camera
  | SetIsRecording bool
  | SetRecordingTime nat
  | SetLoading bool
  | StartGpsTracking
  | StopGpsTracking
  | StartTimer
  | StopTimer
  | CameraStartRecording record_options
  | CameraStopRecording
  | Submit "artifact list" "gps_entry list" nat upload_outcome

record recorder =
  cameras :: "camera list"
  selectedCamera :: "camera option"
  hasPermission :: "bool option"
  loading :: bool
  isRecording :: bool
  recordingTime :: nat
  timerRunning :: bool
  gpsEnabled :: bool
  hasGpsError :: bool
  gpsLog :: "gps_entry list"
  trace :: "effect list"

datatype scan_result = ScanInstalled | ScanRejected string | UsbListRejected string

section \<open>State setters and the trace\<close>

definition emit :: "effect \<Rightarrow> recorder \<Rightarrow> recorder" where
  "emit e s = s\<lparr>trace := trace s @ [e]\<rparr>"

text \<open>The effects a handler added to the trace, given the state before and after.\<close>

definition effects :: "recorder \<Rightarrow> recorder \<Rightarrow> effect list" where
  "effects s s' = drop (length (trace s)) (trace s')"

definition setHasPermission :: "bool \<Rightarrow> recorder \<Rightarrow> recorder" where
  "setHasPermission b s = (emit (SetHasPermission b) s)\<lparr>hasPermission := Some b\<rparr>"

definition setCameras :: "camera list \<Rightarrow> recorder \<Rightarrow> recorder" where
  "setCameras cs s = (emit (SetCameras cs) s)\<lparr>cameras := cs\<rparr>"

definition setSelectedCamera :: "camera \<Rightarrow> recorder \<Rightarrow> recorder" where
  "setSelectedCamera c s = (emit (SetSelectedCamera c) s)\<lparr>selectedCamera := Some c\<rparr>"

definition setIsRecording :: "bool \<Rightarrow> recorder \<Rightarrow> recorder" where
  "setIsRecording b s = (emit (SetIsRecording b) s)\<lparr>isRecording := b\<rparr>"

definition setRecordingTime :: "nat \<Rightarrow> recorder \<Rightarrow> recorder" where
  "setRecordingTime n s = (emit (SetRecordingTime n) s)\<lparr>recordingTime := n\<rparr>"

definition setLoading :: "bool \<Rightarrow> recorder \<Rightarrow> recorder" where
  "setLoading b s = (emit (SetLoading b) s)\<lparr>loading := b\<rparr>"

text \<open>
  \<^verbatim>\<open>cameraRef.current\<close> is set exactly while the \<^verbatim>\<open>Camera\<close> element is mounted, and the component
  renders it only when \<^verbatim>\<open>hasPermission\<close> is \<^verbatim>\<open>true\<close> (the two early returns before the JSX).
  A call through a null reference throws a TypeError.
\<close>

definition cameraRefCurrent :: "recorder \<Rightarrow> bool" where
  "cameraRefCurrent s = (hasPermission s = Some True)"

section \<open>The hooks\<close>

text \<open>
  Modelled from the spec: the hook \<^verbatim>\<open>useVideoRecording\<close> (\<^verbatim>\<open>startTimer\<close>, \<^verbatim>\<open>stopTimer\<close>) is not
  part of the source file. Elapsed-time counting is a simple incrementing counter driven
  by a steady tick.
\<close>

definition startTimer :: "recorder \<Rightarrow> recorder" where
  "startTimer s = (emit StartTimer s)\<lparr>timerRunning := True\<rparr>"

text \<open>
  Modelled from the spec: \<^verbatim>\<open>stopTimer\<close> of the hook \<^verbatim>\<open>useVideoRecording\<close>; Stopping stops
  elapsed-time counting.
\<close>

definition stopTimer :: "recorder \<Rightarrow> recorder" where
  "stopTimer s = (emit StopTimer s)\<lparr>timerRunning := False\<rparr>"

text \<open>
  Modelled from the spec: the steady tick that drives the elapsed-time counter while the
  timer runs.
\<close>

definition timerTick :: "recorder \<Rightarrow> recorder" where
  "timerTick s = (if timerRunning s then s\<lparr>recordingTime := recordingTime s + 1\<rparr> else s)"

text \<open>
  Modelled from the spec: the hook \<^verbatim>\<open>useGPS\<close> is not part of the source file.
  \<^verbatim>\<open>start()\<close> returns true when sampling began; a failed start returns directly to
  Stopped and reports an error flag. The argument \<open>ok\<close> is whether the position provider
  is available and permitted.
\<close>

definition startGpsTracking :: "bool \<Rightarrow> recorder \<Rightarrow> bool \<times> recorder" where
  "startGpsTracking ok s =
     (if ok then (True, (emit StartGpsTracking s)\<lparr>gpsEnabled := True\<rparr>)
      else (False, (emit StartGpsTracking s)\<lparr>gpsEnabled := False, hasGpsError := True\<rparr>))"

text \<open>
  Modelled from the spec: \<^verbatim>\<open>stopGpsTracking\<close> of the hook \<^verbatim>\<open>useGPS\<close>. \<^verbatim>\<open>stop()\<close> freezes and
  returns the accumulated log, then clears internal state for reuse; while Stopped it
  returns an empty sequence.
\<close>

definition stopGpsTracking :: "recorder \<Rightarrow> gps_entry list \<times> recorder" where
  "stopGpsTracking s =
     (gpsLog s, (emit StopGpsTracking s)\<lparr>gpsEnabled := False, gpsLog := []\<rparr>)"

text \<open>
  Modelled from the spec: the sampling loop of the hook \<^verbatim>\<open>useGPS\<close>. While sampling is
  active each successful fix appends one entry to the log; a fix that arrives while
  sampling is stopped is not recorded.
\<close>

definition gpsFix :: "gps_entry \<Rightarrow> recorder \<Rightarrow> recorder" where
  "gpsFix e s = (if gpsEnabled s then s\<lparr>gpsLog := gpsLog s @ [e]\<rparr> else s)"

text \<open>
  Modelled from the spec: the cooperative background tasks that run between two handlers
  on the single control thread, the elapsed-time tick and the GPS sampling cadence.
\<close>

datatype background = Tick | Fix gps_entry

fun backgroundStep :: "background \<Rightarrow> recorder \<Rightarrow> recorder" where
  "backgroundStep Tick s = timerTick s"
| "backgroundStep (Fix e) s = gpsFix e s"

fun runBackground :: "background list \<Rightarrow> recorder \<Rightarrow> recorder" where
  "runBackground [] s = s"
| "runBackground (b # bs) s = runBackground bs (backgroundStep b s)"


text \<open>
  Modelled from the spec: \<^verbatim>\<open>uploadRecording\<close> of the hook \<^verbatim>\<open>useVideoUpload\<close> is not part of the
  source file. It receives \<^verbatim>\<open>stopGpsTracking\<close> and the three setters. Stopping stops GPS
  sampling and captures the frozen log; the artifact and the log are handed to the upload
  pipeline; upload completion, success or failure, resets the session to Idle.
\<close>

definition uploadRecording ::
  "artifact list \<Rightarrow> nat \<Rightarrow> upload_outcome \<Rightarrow> recorder \<Rightarrow> recorder" where
  "uploadRecording chunks duration outcome s =
     (let s1 = setLoading True s;
          (log, s2) = stopGpsTracking s1;
          s3 = emit (Submit chunks log duration outcome) s2
      in setLoading False (setRecordingTime 0 (setIsRecording False s3)))"

section \<open>The handlers of the component\<close>

text \<open>\<^verbatim>\<open>checkPermissions\<close>: an unhandled rejection leaves the state as it is.\<close>

definition checkPermissions :: "string settled \<Rightarrow> recorder \<Rightarrow> recorder" where
  "checkPermissions res s =
     (case res of
        RejectedWith err \<Rightarrow> s
      | Fulfilled cameraPermission \<Rightarrow> setHasPermission (cameraPermission = ''authorized'') s)"

text \<open>The filter of \<^verbatim>\<open>scanForCameras\<close>: the USB device class of imaging devices is 6.\<close>

definition usbCameras :: "usb_device list \<Rightarrow> usb_device list" where
  "usbCameras usbDevices = filter (\<lambda>device. deviceClass device = 6) usbDevices"

definition builtinEntry :: "builtin_device \<Rightarrow> camera" where
  "builtinEntry device =
     \<lparr>cam_id = dev_id device, cam_name = dev_name device, cam_type = BuiltIn\<rparr>"

definition usbEntry :: "usb_device \<Rightarrow> camera" where
  "usbEntry device =
     \<lparr>cam_id = deviceId device,
      cam_name = ''USB Camera ('' @ productName device @ '')'',
      cam_type = Usb\<rparr>"

definition allCameras :: "builtin_device list \<Rightarrow> usb_device list \<Rightarrow> camera list" where
  "allCameras devices usbDevices =
     map builtinEntry devices @ map usbEntry (usbCameras usbDevices)"

text \<open>
  \<^verbatim>\<open>scanForCameras\<close>. The built-in enumeration is awaited: its rejection rejects the scan
  before the USB bus is asked. The USB enumeration is consumed by \<^verbatim>\<open>then\<close> with no
  rejection handler: on rejection the callback never runs.
\<close>

definition scanForCameras ::
  "builtin_device list settled \<Rightarrow> usb_device list settled \<Rightarrow> recorder
     \<Rightarrow> scan_result \<times> recorder" where
  "scanForCameras builtin usb s =
     (case builtin of
        RejectedWith err \<Rightarrow> (ScanRejected err, s)
      | Fulfilled devices \<Rightarrow>
          (case usb of
             RejectedWith err \<Rightarrow> (UsbListRejected err, s)
           | Fulfilled usbDevices \<Rightarrow>
               (let all = allCameras devices usbDevices;
                    s1 = setCameras all s
                in (ScanInstalled,
                    if length all > 0 then setSelectedCamera (all ! 0) s1 else s1))))"

text \<open>The camera option rows: \<^verbatim>\<open>onPress={() => setSelectedCamera(camera)}\<close>.\<close>

definition selectCamera :: "camera \<Rightarrow> recorder \<Rightarrow> recorder" where
  "selectCamera c s = setSelectedCamera c s"

definition recordOptions :: record_options where
  "recordOptions = \<lparr>quality = ''720p'', maxDuration = 300, maxFileSize = 50 * 1024 * 1024\<rparr>"

text \<open>The \<^verbatim>\<open>catch\<close> block of \<^verbatim>\<open>startRecording\<close>.\<close>

definition startRecording_catch :: "string \<Rightarrow> recorder \<Rightarrow> recorder" where
  "startRecording_catch err s =
     (let s1 = emit (ConsoleError ''Failed to start recording:'' err) s;
          s2 = snd (stopGpsTracking s1);
          s3 = setIsRecording False s2
      in stopTimer s3)"

text \<open>
  \<^verbatim>\<open>startRecording\<close>. \<open>gpsOk\<close> is what the position provider allows, \<open>camAck\<close> how the promise
  of \<^verbatim>\<open>cameraRef.current.startRecording\<close> settles. Nothing follows the \<^verbatim>\<open>await\<close> inside the
  \<^verbatim>\<open>try\<close> block, so a fulfilled promise ends the handler.
\<close>

definition startRecording :: "bool \<Rightarrow> unit settled \<Rightarrow> recorder \<Rightarrow> recorder" where
  "startRecording gpsOk camAck s =
     (case selectedCamera s of
        None \<Rightarrow> emit (Alert ''Please select a camera'') s
      | Some cam \<Rightarrow>
          (let (gpsStarted, s1) = startGpsTracking gpsOk s;
               s2 = (if \<not> gpsStarted
                     then emit (ConsoleWarn ''GPS tracking could not be started'') s1
                     else s1);
               s3 = setIsRecording True s2;
               s4 = startTimer s3
           in if \<not> cameraRefCurrent s4 then startRecording_catch ''TypeError'' s4
              else (let s5 = emit (CameraStartRecording recordOptions) s4
                    in case camAck of
                         Fulfilled u \<Rightarrow> s5
                       | RejectedWith err \<Rightarrow> startRecording_catch err s5)))"

text \<open>
  \<^verbatim>\<open>stopRecording\<close>. \<open>camStop\<close> is how the promise of \<^verbatim>\<open>cameraRef.current.stopRecording\<close>
  settles, \<open>duration\<close> what \<^verbatim>\<open>getRecordingDuration()\<close> returns, \<open>outcome\<close> what the upload
  pipeline reports.
\<close>

definition stopRecording ::
  "artifact settled \<Rightarrow> nat \<Rightarrow> upload_outcome \<Rightarrow> recorder \<Rightarrow> recorder" where
  "stopRecording camStop duration outcome s =
     (if \<not> cameraRefCurrent s
      then emit (ConsoleError ''Failed to stop recording:'' ''TypeError'') s
      else (let s1 = emit CameraStopRecording s
            in case camStop of
                 RejectedWith err \<Rightarrow> emit (ConsoleError ''Failed to stop recording:'' err) s1
               | Fulfilled data \<Rightarrow>
                   (let s2 = stopTimer s1
                    in uploadRecording [data] duration outcome s2)))"

text \<open>
  The record button: rendered with the camera view only, disabled while loading or with
  no camera selected, and dispatching on \<^verbatim>\<open>isRecording\<close>.
\<close>

definition pressRecordButton ::
  "bool \<Rightarrow> unit settled \<Rightarrow> artifact settled \<Rightarrow> nat \<Rightarrow> upload_outcome \<Rightarrow> recorder
     \<Rightarrow> recorder" where
  "pressRecordButton gpsOk camAck camStop duration outcome s =
     (if hasPermission s \<noteq> Some True \<or> loading s \<or> selectedCamera s = None then s
      else if isRecording s then stopRecording camStop duration outcome s
      else startRecording gpsOk camAck s)"

text \<open>
  Ordering in a trace: no effect satisfying \<open>q\<close> occurs before the first effect
  satisfying \<open>p\<close>.
\<close>

fun preceded :: "(effect \<Rightarrow> bool) \<Rightarrow> (effect \<Rightarrow> bool) \<Rightarrow> effect list \<Rightarrow> bool" where
  "preceded p q [] = True"
| "preceded p q (e # es) = (if p e then True else if q e then False else preceded p q es)"

fun isSubmit :: "effect \<Rightarrow> bool" where
  "isSubmit (Submit chunks log duration outcome) = True"
| "isSubmit e = False"

section \<open>Concrete states and inputs\<close>

definition camA :: camera where
  "camA = \<lparr>cam_id = IdStr ''0'', cam_name = ''Back Camera'', cam_type = BuiltIn\<rparr>"

definition devB :: builtin_device where
  "devB = \<lparr>dev_id = IdStr ''1'', dev_name = ''Front Camera''\<rparr>"

definition usbMouse :: usb_device where
  "usbMouse = \<lparr>deviceId = IdNum 1002, deviceClass = 3, productName = ''Mouse''\<rparr>"

definition usbWebcam :: usb_device where
  "usbWebcam = \<lparr>deviceId = IdNum 1003, deviceClass = 6, productName = ''Webcam''\<rparr>"

definition clip :: artifact where
  "clip = \<lparr>handle = ''file:///clip.mp4'', durationSeconds = 4, sizeBytes = 1000\<rparr>"

definition fix1 :: gps_entry where
  "fix1 = \<lparr>timestamp = 1, latitude = 12, longitude = 77, accuracyMeters = Some 5\<rparr>"

text \<open>An idle component with the camera mounted and \<open>camA\<close> selected.\<close>

definition idleState :: recorder where
  "idleState =
     \<lparr>cameras = [camA], selectedCamera = Some camA, hasPermission = Some True,
      loading = False, isRecording = False, recordingTime = 0, timerRunning = False,
      gpsEnabled = False, hasGpsError = False, gpsLog = [], trace = []\<rparr>"

text \<open>The same component with nothing selected.\<close>

definition noDeviceState :: recorder where
  "noDeviceState = idleState\<lparr>cameras := [], selectedCamera := None\<rparr>"

text \<open>A component in the middle of a recording.\<close>

definition activeState :: recorder where
  "activeState =
     idleState\<lparr>isRecording := True, timerRunning := True, gpsEnabled := True,
       recordingTime := 7, gpsLog := [fix1]\<rparr>"

section \<open>Unfolding rules and frame lemmas\<close>

lemmas setter_defs = emit_def setHasPermission_def setCameras_def setSelectedCamera_def
  setIsRecording_def setRecordingTime_def setLoading_def startTimer_def stopTimer_def
  startGpsTracking_def stopGpsTracking_def uploadRecording_def startRecording_catch_def
  cameraRefCurrent_def effects_def Let_def

lemmas scan_defs = scanForCameras_def allCameras_def usbCameras_def builtinEntry_def
  setCameras_def setSelectedCamera_def emit_def effects_def Let_def

lemmas example_defs = camA_def devB_def usbMouse_def usbWebcam_def clip_def fix1_def
  idleState_def noDeviceState_def activeState_def

lemma startRecording_None:
  "selectedCamera s = None \<Longrightarrow>
     startRecording gpsOk camAck s = s\<lparr>trace := trace s @ [Alert ''Please select a camera'']\<rparr>"
  by (simp add: startRecording_def emit_def)

lemma backgroundStep_frame:
  "trace (backgroundStep b s) = trace s"
  "hasPermission (backgroundStep b s) = hasPermission s"
  "gpsEnabled (backgroundStep b s) = gpsEnabled s"
  "isRecording (backgroundStep b s) = isRecording s"
  by (cases b; simp add: timerTick_def gpsFix_def)+

lemma backgroundStep_log_stopped:
  "\<not> gpsEnabled s \<Longrightarrow> gpsLog (backgroundStep b s) = gpsLog s"
  by (cases b) (simp_all add: timerTick_def gpsFix_def)

lemma runBackground_frame:
  "trace (runBackground bs s) = trace s \<and>
   hasPermission (runBackground bs s) = hasPermission s \<and>
   gpsEnabled (runBackground bs s) = gpsEnabled s \<and>
   isRecording (runBackground bs s) = isRecording s"
  by (induction bs arbitrary: s) (simp_all add: backgroundStep_frame)

lemma runBackground_log_stopped:
  "\<not> gpsEnabled s \<Longrightarrow> gpsLog (runBackground bs s) = gpsLog s"
  by (induction bs arbitrary: s) (simp_all add: backgroundStep_frame backgroundStep_log_stopped)

lemma stopRecording_fulfilled_effects:
  "cameraRefCurrent s \<Longrightarrow>
   effects s (stopRecording (Fulfilled data) duration outcome s) =
     [CameraStopRecording, StopTimer, SetLoading True, StopGpsTracking,
      Submit [data] (gpsLog s) duration outcome, SetIsRecording False,
      SetRecordingTime 0, SetLoading False]"
  by (simp add: stopRecording_def setter_defs)

lemma stopRecording_fulfilled_idle:
  "cameraRefCurrent s \<Longrightarrow> \<not> isRecording (stopRecording (Fulfilled data) duration outcome s)"
  by (simp add: stopRecording_def setter_defs)





section \<open>Starting a recording\<close>

text \<open>
  Claim C1, as amended. With no camera selected, \<^verbatim>\<open>startRecording\<close> only raises the alert:
  the session state, the timer, the GPS sampler and the camera are left as they were.
  The handler has no check for a recording in progress; that case is kept away by the
  record button, which dispatches to \<^verbatim>\<open>stopRecording\<close> whenever \<^verbatim>\<open>isRecording\<close> is true.
\<close>

theorem startRecording_rejects_without_device:
  "(selectedCamera s = None \<longrightarrow>
      startRecording gpsOk camAck s = s\<lparr>trace := trace s @ [Alert ''Please select a camera'']\<rparr>)
   \<and> (isRecording s \<longrightarrow>
      pressRecordButton gpsOk camAck camStop duration outcome s =
        (if hasPermission s = Some True \<and> \<not> loading s \<and> selectedCamera s \<noteq> None
         then stopRecording camStop duration outcome s else s))"
  by (simp add: startRecording_None pressRecordButton_def)

theorem startRecording_rejects_without_device_witness:
  "selectedCamera noDeviceState = None \<and>
   startRecording True (Fulfilled ()) noDeviceState =
     noDeviceState\<lparr>trace := [Alert ''Please select a camera'']\<rparr> \<and>
   isRecording activeState \<and>
   pressRecordButton True (Fulfilled ()) (Fulfilled clip) 7 UploadSuccess activeState =
     stopRecording (Fulfilled clip) 7 UploadSuccess activeState"
  using startRecording_rejects_without_device
      [of noDeviceState True "Fulfilled ()" "Fulfilled clip" 7 UploadSuccess]
    startRecording_rejects_without_device
      [of activeState True "Fulfilled ()" "Fulfilled clip" 7 UploadSuccess]
  by (simp add: noDeviceState_def activeState_def idleState_def)

text \<open>
  Claim C1 as stated fails: called while a recording is in progress, with a camera
  selected, \<^verbatim>\<open>startRecording\<close> starts GPS tracking, the timer and the camera again.
\<close>

theorem startRecording_while_recording_counterexample:
  "isRecording activeState \<and> selectedCamera activeState = Some camA \<and>
   effects activeState (startRecording True (Fulfilled ()) activeState) =
     [StartGpsTracking, SetIsRecording True, StartTimer, CameraStartRecording recordOptions]"
  by (simp add: activeState_def idleState_def startRecording_def setter_defs)

text \<open>
  Claim C2. When the camera start fails (the promise is rejected, or the camera reference
  is null) after GPS tracking began, the handler stops GPS tracking before it resets
  \<^verbatim>\<open>isRecording\<close>; afterwards the session is not recording, the timer is stopped, GPS
  sampling is off and the log it held is gone.
\<close>

theorem startRecording_camera_failure_rollback:
  assumes "selectedCamera s = Some cam"
    and "\<not> cameraRefCurrent s \<or> camAck = RejectedWith err"
  shows "\<not> isRecording (startRecording True camAck s)
    \<and> \<not> timerRunning (startRecording True camAck s)
    \<and> \<not> gpsEnabled (startRecording True camAck s)
    \<and> gpsLog (startRecording True camAck s) = []
    \<and> StopGpsTracking \<in> set (effects s (startRecording True camAck s))
    \<and> preceded (\<lambda>e. e = StartGpsTracking) (\<lambda>e. e = StopGpsTracking)
         (effects s (startRecording True camAck s))
    \<and> preceded (\<lambda>e. e = StopGpsTracking) (\<lambda>e. e = SetIsRecording False)
         (effects s (startRecording True camAck s))"
  using assms by (auto simp add: startRecording_def setter_defs)

theorem startRecording_camera_failure_rollback_witness:
  "selectedCamera activeState = Some camA
   \<and> effects idleState (startRecording True (RejectedWith ''busy'') idleState) =
       [StartGpsTracking, SetIsRecording True, StartTimer, CameraStartRecording recordOptions,
        ConsoleError ''Failed to start recording:'' ''busy'', StopGpsTracking,
        SetIsRecording False, StopTimer]
   \<and> \<not> isRecording (startRecording True (RejectedWith ''busy'') activeState)
   \<and> \<not> timerRunning (startRecording True (RejectedWith ''busy'') activeState)
   \<and> \<not> gpsEnabled (startRecording True (RejectedWith ''busy'') activeState)
   \<and> gpsLog activeState = [fix1]
   \<and> gpsLog (startRecording True (RejectedWith ''busy'') activeState) = []"
  using startRecording_camera_failure_rollback
      [of activeState camA "RejectedWith ''busy''" "''busy''"]
  by (simp add: example_defs startRecording_def setter_defs)

text \<open>
  Claim C8. When GPS tracking cannot be started, \<^verbatim>\<open>startRecording\<close> only logs a warning and
  goes on: the session is recording, the timer runs and the camera has been started,
  with \<^verbatim>\<open>gpsEnabled\<close> false and \<^verbatim>\<open>hasGpsError\<close> true. Whatever ticks and fixes arrive in
  between, stopping the session then uploads the clip with an empty GPS log and returns
  to Idle.
\<close>

theorem gps_failure_is_not_fatal:
  assumes "selectedCamera s = Some cam" and "cameraRefCurrent s" and "gpsLog s = []"
    and "s1 = startRecording False (Fulfilled ()) s"
    and "s2 = runBackground bs s1"
    and "s3 = stopRecording (Fulfilled data) duration outcome s2"
  shows "isRecording s1 \<and> timerRunning s1 \<and> \<not> gpsEnabled s1 \<and> hasGpsError s1
    \<and> effects s s1 =
        [StartGpsTracking, ConsoleWarn ''GPS tracking could not be started'',
         SetIsRecording True, StartTimer, CameraStartRecording recordOptions]
    \<and> isRecording s2 \<and> gpsLog s2 = []
    \<and> effects s2 s3 =
        [CameraStopRecording, StopTimer, SetLoading True, StopGpsTracking,
         Submit [data] [] duration outcome, SetIsRecording False, SetRecordingTime 0,
         SetLoading False]
    \<and> \<not> isRecording s3"
proof -
  have start: "isRecording s1 \<and> timerRunning s1 \<and> \<not> gpsEnabled s1 \<and> hasGpsError s1
      \<and> gpsLog s1 = [] \<and> cameraRefCurrent s1
      \<and> effects s s1 =
        [StartGpsTracking, ConsoleWarn ''GPS tracking could not be started'',
         SetIsRecording True, StartTimer, CameraStartRecording recordOptions]"
    using assms(1-4) by (simp add: startRecording_def setter_defs)
  have rec2: "isRecording s2"
    using start assms(5) by (simp add: runBackground_frame)
  have log2: "gpsLog s2 = []"
    using start assms(5) by (simp add: runBackground_log_stopped)
  have ref2: "cameraRefCurrent s2"
    using start assms(5) by (simp add: cameraRefCurrent_def runBackground_frame)
  have stop: "effects s2 s3 =
        [CameraStopRecording, StopTimer, SetLoading True, StopGpsTracking,
         Submit [data] [] duration outcome, SetIsRecording False, SetRecordingTime 0,
         SetLoading False]"
    using stopRecording_fulfilled_effects [OF ref2] log2 assms(6) by simp
  have idle3: "\<not> isRecording s3"
    using stopRecording_fulfilled_idle [OF ref2] assms(6) by simp
  from start rec2 log2 stop idle3 show ?thesis by simp
qed

theorem gps_failure_is_not_fatal_witness:
  "selectedCamera idleState = Some camA \<and> cameraRefCurrent idleState \<and> gpsLog idleState = []
   \<and> hasGpsError (startRecording False (Fulfilled ()) idleState)
   \<and> isRecording (startRecording False (Fulfilled ()) idleState)
   \<and> effects (runBackground [Tick, Fix fix1, Tick] (startRecording False (Fulfilled ()) idleState))
       (stopRecording (Fulfilled clip) 2 UploadSuccess
         (runBackground [Tick, Fix fix1, Tick] (startRecording False (Fulfilled ()) idleState))) =
        [CameraStopRecording, StopTimer, SetLoading True, StopGpsTracking,
         Submit [clip] [] 2 UploadSuccess, SetIsRecording False, SetRecordingTime 0,
         SetLoading False]"
  using gps_failure_is_not_fatal [of idleState camA "startRecording False (Fulfilled ()) idleState"
      "runBackground [Tick, Fix fix1, Tick] (startRecording False (Fulfilled ()) idleState)"
      "[Tick, Fix fix1, Tick]"
      "stopRecording (Fulfilled clip) 2 UploadSuccess
         (runBackground [Tick, Fix fix1, Tick] (startRecording False (Fulfilled ()) idleState))"
      clip 2 UploadSuccess]
  by (simp add: idleState_def cameraRefCurrent_def)

text \<open>
  Claim C6, evaluated on the code. The two caps (300 seconds, 50 MB) are handed to the
  camera, and nothing follows the awaited camera call: when its promise is fulfilled the
  handler ends with the session recording, the timer running and GPS sampling on, and
  with no timer stop, GPS stop or upload. Those happen on the manual stop only, shown
  here from the same state.
\<close>

theorem startRecording_fulfilled_runs_no_stop_path:
  "effects idleState (startRecording True (Fulfilled ()) idleState) =
     [StartGpsTracking, SetIsRecording True, StartTimer,
      CameraStartRecording \<lparr>quality = ''720p'', maxDuration = 300, maxFileSize = 52428800\<rparr>]
   \<and> isRecording (startRecording True (Fulfilled ()) idleState)
   \<and> timerRunning (startRecording True (Fulfilled ()) idleState)
   \<and> gpsEnabled (startRecording True (Fulfilled ()) idleState)
   \<and> effects (startRecording True (Fulfilled ()) idleState)
       (stopRecording (Fulfilled clip) 4 UploadSuccess
          (startRecording True (Fulfilled ()) idleState)) =
     [CameraStopRecording, StopTimer, SetLoading True, StopGpsTracking,
      Submit [clip] [] 4 UploadSuccess, SetIsRecording False, SetRecordingTime 0,
      SetLoading False]"
  by (simp add: idleState_def startRecording_def stopRecording_def recordOptions_def setter_defs)

section \<open>Stopping a recording\<close>

text \<open>
  Claim C7, as amended. \<^verbatim>\<open>stopRecording\<close> has no check of the session state and returns no
  signal. Called while not recording, it asks the camera to stop all the same: when the
  camera reference is null or the camera's promise is rejected, the failure is logged as
  an error and nothing else changes (no timer stop, no upload); when the promise is
  fulfilled, the normal stop path runs.
\<close>

theorem stopRecording_idle_behaviour:
  "(\<not> isRecording s \<and> (\<not> cameraRefCurrent s \<or> camStop = RejectedWith err) \<longrightarrow>
      (stopRecording camStop duration outcome s)\<lparr>trace := trace s\<rparr> = s
      \<and> \<not> list_ex isSubmit (effects s (stopRecording camStop duration outcome s))
      \<and> StopTimer \<notin> set (effects s (stopRecording camStop duration outcome s))
      \<and> (\<exists>e. ConsoleError ''Failed to stop recording:'' e
             \<in> set (effects s (stopRecording camStop duration outcome s))))
   \<and> (cameraRefCurrent s \<longrightarrow>
      effects s (stopRecording (Fulfilled data) duration outcome s) =
        [CameraStopRecording, StopTimer, SetLoading True, StopGpsTracking,
         Submit [data] (gpsLog s) duration outcome, SetIsRecording False,
         SetRecordingTime 0, SetLoading False])"
  by (auto simp add: stopRecording_def setter_defs)

theorem stopRecording_idle_behaviour_witness:
  "\<not> isRecording idleState
   \<and> stopRecording (RejectedWith ''not recording'') 0 UploadSuccess idleState =
       idleState\<lparr>trace := [CameraStopRecording,
         ConsoleError ''Failed to stop recording:'' ''not recording'']\<rparr>
   \<and> cameraRefCurrent idleState
   \<and> list_ex isSubmit
       (effects idleState (stopRecording (Fulfilled clip) 0 UploadSuccess idleState))"
  using stopRecording_idle_behaviour
      [of idleState "RejectedWith ''not recording''" "''not recording''" 0 UploadSuccess clip]
  by (simp add: idleState_def stopRecording_def setter_defs)

text \<open>
  Claim C7 as stated fails: on an idle session whose camera answers the stop request,
  \<^verbatim>\<open>stopRecording\<close> stops the timer and starts an upload.
\<close>

theorem stopRecording_idle_uploads_counterexample:
  "\<not> isRecording idleState
   \<and> \<not> timerRunning idleState
   \<and> effects idleState (stopRecording (Fulfilled clip) 0 UploadSuccess idleState) =
     [CameraStopRecording, StopTimer, SetLoading True, StopGpsTracking,
      Submit [clip] [] 0 UploadSuccess, SetIsRecording False, SetRecordingTime 0,
      SetLoading False]"
  by (simp add: idleState_def stopRecording_def setter_defs)

section \<open>GPS sampling around the recording window\<close>




section \<open>Scanning for cameras\<close>

text \<open>
  Claim C3. Every USB entry of the camera list a scan installs comes from a USB device
  whose device class is 6: a device of any other class contributes no entry.
\<close>

theorem scan_usb_entries_are_imaging:
  assumes "c \<in> set (cameras (snd (scanForCameras (Fulfilled devices) (Fulfilled usbDevices) s)))"
    and "cam_type c = Usb"
  shows "\<exists>d \<in> set usbDevices. deviceClass d = 6 \<and> c = usbEntry d"
  using assms by (auto simp add: scan_defs split: if_splits)

theorem scan_usb_entries_are_imaging_witness:
  "cameras (snd (scanForCameras (Fulfilled [devB]) (Fulfilled [usbMouse, usbWebcam]) idleState))
     = [builtinEntry devB, usbEntry usbWebcam]
   \<and> cam_type (usbEntry usbWebcam) = Usb
   \<and> deviceClass usbMouse = 3
   \<and> (\<exists>d \<in> set [usbMouse, usbWebcam]. deviceClass d = 6 \<and> usbEntry usbWebcam = usbEntry d)"
  using scan_usb_entries_are_imaging
      [of "usbEntry usbWebcam" "[devB]" "[usbMouse, usbWebcam]" idleState]
  by (simp add: example_defs scan_defs usbEntry_def)

text \<open>
  Claim C4, as amended. A scan that produces a non-empty list selects the first camera
  of the new list, whatever was selected before, so the selection is a member of the
  installed list; the only effects are the two state setters, with no notification.
\<close>

theorem scan_selects_first_camera:
  assumes "allCameras devices usbDevices \<noteq> []"
  shows "selectedCamera (snd (scanForCameras (Fulfilled devices) (Fulfilled usbDevices) s))
           = Some (hd (allCameras devices usbDevices))
    \<and> hd (allCameras devices usbDevices)
        \<in> set (cameras (snd (scanForCameras (Fulfilled devices) (Fulfilled usbDevices) s)))
    \<and> effects s (snd (scanForCameras (Fulfilled devices) (Fulfilled usbDevices) s))
        = [SetCameras (allCameras devices usbDevices),
           SetSelectedCamera (hd (allCameras devices usbDevices))]"
  using assms
  by (simp add: scanForCameras_def Let_def setCameras_def setSelectedCamera_def emit_def
      effects_def hd_conv_nth)

theorem scan_selects_first_camera_witness:
  "allCameras [devB] [usbMouse] \<noteq> []
   \<and> selectedCamera idleState = Some camA
   \<and> selectedCamera (snd (scanForCameras (Fulfilled [devB]) (Fulfilled [usbMouse]) idleState))
       = Some (builtinEntry devB)"
  using scan_selects_first_camera [of "[devB]" "[usbMouse]" idleState]
  by (simp add: example_defs allCameras_def usbCameras_def)

text \<open>
  Claim C4 as stated fails: the selected camera is absent from the new list, and the scan
  neither clears the selection nor notifies; it selects another device.
\<close>

theorem scan_replaces_lost_selection_counterexample:
  "selectedCamera idleState = Some camA
   \<and> cam_id camA \<notin> cam_id `
       set (cameras (snd (scanForCameras (Fulfilled [devB]) (Fulfilled [usbMouse]) idleState)))
   \<and> selectedCamera (snd (scanForCameras (Fulfilled [devB]) (Fulfilled [usbMouse]) idleState))
       = Some (builtinEntry devB)
   \<and> effects idleState (snd (scanForCameras (Fulfilled [devB]) (Fulfilled [usbMouse]) idleState))
       = [SetCameras [builtinEntry devB], SetSelectedCamera (builtinEntry devB)]"
  by (simp add: example_defs scan_defs usbEntry_def)

text \<open>
  Claim C5. When either enumeration is rejected, the scan does not complete and the whole
  state, the camera list included, is what it was before.
\<close>

theorem scan_failure_keeps_state:
  assumes "builtin = RejectedWith err \<or> usb = RejectedWith err"
  shows "snd (scanForCameras builtin usb s) = s
    \<and> fst (scanForCameras builtin usb s) \<noteq> ScanInstalled"
  using assms by (auto simp add: scanForCameras_def split: settled.splits)

theorem scan_failure_keeps_state_witness:
  "snd (scanForCameras (Fulfilled [devB]) (RejectedWith ''usb bus down'') idleState) = idleState
   \<and> fst (scanForCameras (Fulfilled [devB]) (RejectedWith ''usb bus down'') idleState)
       = UsbListRejected ''usb bus down''
   \<and> snd (scanForCameras (RejectedWith ''usb bus down'') (Fulfilled [usbWebcam]) idleState)
       = idleState"
  using scan_failure_keeps_state
      [of "Fulfilled [devB]" "''usb bus down''" "RejectedWith ''usb bus down''" idleState]
    scan_failure_keeps_state
      [of "RejectedWith ''usb bus down''" "''usb bus down''" "Fulfilled [usbWebcam]" idleState]
  by (simp add: scanForCameras_def)

text \<open>
  Claim C10. A scan whose merged list is empty installs the empty list and leaves the
  selected camera as it was, so the selection may name a device that is no longer listed.
\<close>

theorem empty_scan_keeps_selection:
  assumes "allCameras devices usbDevices = []"
  shows "cameras (snd (scanForCameras (Fulfilled devices) (Fulfilled usbDevices) s)) = []
    \<and> selectedCamera (snd (scanForCameras (Fulfilled devices) (Fulfilled usbDevices) s))
        = selectedCamera s"
  using assms
  by (simp add: scanForCameras_def Let_def setCameras_def emit_def)

theorem empty_scan_keeps_selection_witness:
  "allCameras [] [usbMouse] = []
   \<and> cameras (snd (scanForCameras (Fulfilled []) (Fulfilled [usbMouse]) idleState)) = []
   \<and> selectedCamera (snd (scanForCameras (Fulfilled []) (Fulfilled [usbMouse]) idleState))
        = Some camA
   \<and> camA \<notin> set (cameras (snd (scanForCameras (Fulfilled []) (Fulfilled [usbMouse]) idleState)))"
  using empty_scan_keeps_selection [of "[]" "[usbMouse]" idleState]
  by (simp add: example_defs allCameras_def usbCameras_def)

end
